theory Spec2Isabelle
  imports Main
begin

section \<open>Python exceptions as values\<close>

text \<open>
  The repository defines no exception class of its own: it raises
  \<open>Exception\<close> with a message and lets the exceptions of Python and of its
  libraries pass.  Every exception that a modelled statement can raise is a
  constructor carrying its message (for \<open>KeyError\<close>, the key).  The messages
  the repository builds itself are exact; those of Python and the libraries
  are shortened.
\<close>

datatype exn =
    Exception string
  | ValueError string
  | IndexError string
  | KeyError string
  | AttributeError string
  | RequestException string

section \<open>Digital forecast: combining dates and hours into pairs\<close>

text \<open>
  \<^verbatim>\<open>
  combined = []
  if len(all_dates) > 0 and len(all_hours) > 0:
      hours_per_block = len(all_hours) // len(all_dates)
      idx = 0
      for date in all_dates:
          if date == all_dates[-1]:
              hours = all_hours[idx:]
          else:
              hours = all_hours[idx:idx+hours_per_block]
          for hour in hours:
              combined.append([date, hour])
          idx += len(hours)
  \<close>
  The same text stands in both entry points (app.py and weather_app.py).
  The slice \<open>all_hours[idx:]\<close> is \<open>drop idx all_hours\<close> and
  \<open>all_hours[idx:idx+n]\<close> is \<open>take n (drop idx all_hours)\<close>; Python slices
  never raise.  \<open>all_dates[-1]\<close> is read only inside the loop, where the
  list is not empty.  The test \<open>date == all_dates[-1]\<close> compares the label
  texts, not the positions.
\<close>

definition hour_slice :: "string list \<Rightarrow> nat \<Rightarrow> string list \<Rightarrow> nat \<Rightarrow> string \<Rightarrow> string list" where
  "hour_slice all_dates hours_per_block all_hours idx date =
     (if date = last all_dates then drop idx all_hours
      else take hours_per_block (drop idx all_hours))"

text \<open>
  The loop over the dates, with the two variables it updates, \<open>idx\<close> and
  \<open>combined\<close>, as its state.  The second argument is the part of
  \<open>all_dates\<close> still to be visited.
\<close>

fun combine_loop ::
  "string list \<Rightarrow> nat \<Rightarrow> string list \<Rightarrow> string list \<Rightarrow>
   nat \<times> (string \<times> string) list \<Rightarrow> nat \<times> (string \<times> string) list" where
  "combine_loop all_dates hours_per_block all_hours [] (idx, combined) = (idx, combined)"
| "combine_loop all_dates hours_per_block all_hours (date # rest) (idx, combined) =
     (let hours = hour_slice all_dates hours_per_block all_hours idx date
      in combine_loop all_dates hours_per_block all_hours rest
           (idx + length hours, combined @ map (Pair date) hours))"

definition combine :: "string list \<Rightarrow> string list \<Rightarrow> (string \<times> string) list" where
  "combine all_dates all_hours =
     (if length all_dates > 0 \<and> length all_hours > 0
      then snd (combine_loop all_dates (length all_hours div length all_dates) all_hours
                  all_dates (0, []))
      else [])"

text \<open>
  Two observations of the loop: the value of \<open>idx\<close> when the date at
  position \<open>i\<close> is reached (the loop run on the first \<open>i\<close> dates), and the
  slice \<open>hours\<close> that this date then receives.
\<close>

definition cursor_at :: "string list \<Rightarrow> string list \<Rightarrow> nat \<Rightarrow> nat" where
  "cursor_at all_dates all_hours i =
     fst (combine_loop all_dates (length all_hours div length all_dates) all_hours
            (take i all_dates) (0, []))"

definition block_at :: "string list \<Rightarrow> string list \<Rightarrow> nat \<Rightarrow> string list" where
  "block_at all_dates all_hours i =
     hour_slice all_dates (length all_hours div length all_dates) all_hours
       (cursor_at all_dates all_hours i) (all_dates ! i)"

text \<open>
  The position of the first date whose label equals the label of the final
  date: the number of leading dates with a different label.
\<close>

definition first_final :: "string list \<Rightarrow> nat" where
  "first_final all_dates = length (takeWhile (\<lambda>d. d \<noteq> last all_dates) all_dates)"


section \<open>Strings and integers as Python reads and prints them\<close>

text \<open>
  Strings are lists of bytes.  \<open>str.strip()\<close> removes leading and trailing
  white space; on ASCII text these are the characters 9 to 13, 28 to 31
  and 32.
\<close>

definition is_space :: "char \<Rightarrow> bool" where
  "is_space c = (of_char c \<in> {9, 10, 11, 12, 13, 28, 29, 30, 31, 32 :: nat})"

definition strip :: "string \<Rightarrow> string" where
  "strip s = rev (dropWhile is_space (rev (dropWhile is_space s)))"

definition is_digit :: "char \<Rightarrow> bool" where
  "is_digit c = (48 \<le> (of_char c :: nat) \<and> (of_char c :: nat) \<le> 57)"

definition digit_val :: "char \<Rightarrow> nat" where
  "digit_val c = of_char c - 48"

text \<open>
  \<open>int(s)\<close> for a string \<open>s\<close>, base 10: white space around the literal is
  dropped, one sign may lead, and the digits may be grouped by single
  underscores standing between two digits.  Anything else raises
  \<open>ValueError\<close>.  (Digits outside ASCII, which Python also accepts, are
  not modelled: they are rejected here.)
\<close>

fun int_digits :: "string \<Rightarrow> nat \<Rightarrow> nat option" where
  "int_digits [] acc = Some acc"
| "int_digits (c # cs) acc =
     (if is_digit c then int_digits cs (10 * acc + digit_val c)
      else if c = CHR ''_'' then
        (case cs of
           [] \<Rightarrow> None
         | d # ds \<Rightarrow> if is_digit d then int_digits cs acc else None)
      else None)"

definition invalid_literal :: "string \<Rightarrow> exn" where
  "invalid_literal s = ValueError (''invalid literal for int() with base 10: '' @ s)"

definition py_int :: "string \<Rightarrow> exn + int" where
  "py_int s =
     (let t = strip s;
          neg = (t \<noteq> [] \<and> hd t = CHR ''-'');
          body = (if t \<noteq> [] \<and> (hd t = CHR ''-'' \<or> hd t = CHR ''+'') then tl t else t)
      in if body \<noteq> [] \<and> is_digit (hd body)
         then (case int_digits body 0 of
                 None \<Rightarrow> Inl (invalid_literal s)
               | Some n \<Rightarrow> Inr (if neg then - int n else int n))
         else Inl (invalid_literal s))"

text \<open>Decimal digits of a natural number, as \<open>str\<close> and the format code \<open>d\<close> print them.\<close>

fun str_nat :: "nat \<Rightarrow> string" where
  "str_nat n =
     (if n < 10 then [''0123456789'' ! n]
      else str_nat (n div 10) @ [''0123456789'' ! (n mod 10)])"

declare str_nat.simps [simp del]

text \<open>
  The format specification \<open>02d\<close>: the decimal digits, a minus sign before
  them for a negative number, and zeros on the left up to a width of two
  characters.  A negative number already fills the width.
\<close>

definition format_02d :: "int \<Rightarrow> string" where
  "format_02d n =
     (if n < 0 then CHR ''-'' # str_nat (nat (- n))
      else replicate (2 - length (str_nat (nat n))) (CHR ''0'') @ str_nat (nat n))"

section \<open>Digital forecast: display strings\<close>

text \<open>
  \<^verbatim>\<open>
  formatted = []
  for date, hour in combined:
      try:
          dt = datetime.strptime(date, "%m/%d")
          date_str = dt.strftime("%B %-d") if hasattr(dt, 'strftime') else dt.strftime("%B %d").replace(' 0', ' ')
      except Exception:
          date_str = date
      hour_str = f"{int(hour):02d}:00"
      formatted.append(f"{date_str}, {hour_str}")
  \<close>
  Both entry points bind the name \<open>datetime\<close> by \<open>import datetime\<close> (line 6
  of app.py and of weather_app.py), that is to the module, and use it so
  before and after this loop (\<open>datetime.datetime.now()\<close>,
  \<open>datetime.date.today()\<close>, \<open>datetime.timedelta(days=1)\<close>); no other
  statement rebinds the name.  The module has no attribute \<open>strptime\<close> (the
  parser is a method of the class \<open>datetime.datetime\<close>), so the attribute
  lookup in the first line of the \<open>try\<close> block raises \<open>AttributeError\<close>
  before its arguments are looked at, and the handler takes over.  The
  \<open>strftime\<close> line is modelled all the same, for a parsed date with a month
  and a day.
\<close>

record date_time =
  month :: nat
  day :: nat

definition datetime_strptime :: "string \<Rightarrow> string \<Rightarrow> exn + date_time" where
  "datetime_strptime date_string fmt =
     Inl (AttributeError ''module datetime has no attribute strptime'')"

definition month_names :: "string list" where
  "month_names = [''January'', ''February'', ''March'', ''April'', ''May'', ''June'', ''July'',
     ''August'', ''September'', ''October'', ''November'', ''December'']"

text \<open>\<open>dt.strftime("%B %-d")\<close>: the full month name and the day without padding.\<close>

definition strftime_B_d :: "date_time \<Rightarrow> string" where
  "strftime_B_d dt = month_names ! (month dt - 1) @ '' '' @ str_nat (day dt)"

text \<open>
  One pass of the loop body.  The \<open>try\<close> block covers the date only; the
  conversion \<open>int(hour)\<close> stands after the handler, so its \<open>ValueError\<close>
  leaves the loop.
\<close>

definition format_pair :: "string \<times> string \<Rightarrow> exn + string" where
  "format_pair p =
     (case p of (date, hour) \<Rightarrow>
        let date_str = (case datetime_strptime date ''%m/%d'' of
                          Inr dt \<Rightarrow> strftime_B_d dt
                        | Inl e \<Rightarrow> date)
        in case py_int hour of
             Inl e \<Rightarrow> Inl e
           | Inr n \<Rightarrow> Inr (date_str @ '', '' @ format_02d n @ '':00''))"

fun format_loop :: "(string \<times> string) list \<Rightarrow> string list \<Rightarrow> exn + string list" where
  "format_loop [] formatted = Inr formatted"
| "format_loop (p # rest) formatted =
     (case format_pair p of
        Inl e \<Rightarrow> Inl e
      | Inr s \<Rightarrow> format_loop rest (formatted @ [s]))"

section \<open>Digital forecast: the data frame and the CSV rows\<close>

text \<open>
  \<^verbatim>\<open>
  df = pd.DataFrame({
      'Date': formatted,
      'Temperature (F)': temp_values,
      'Surface Wind Speed (mph)': wind_values,
      'Relative Humidity (%)': humidity_values
  })
  \<close>
  The frame has the four columns of the dictionary literal.  The pandas
  constructor collects the set of the lengths of the column lists and
  raises \<open>ValueError\<close> when the set has more than one element.
\<close>

record forecast_frame =
  Date :: "string list"
  Temperature_F :: "string list"
  Surface_Wind_Speed_mph :: "string list"
  Relative_Humidity_pct :: "string list"

definition pd_DataFrame ::
  "string list \<Rightarrow> string list \<Rightarrow> string list \<Rightarrow> string list \<Rightarrow> exn + forecast_frame" where
  "pd_DataFrame date temperature wind humidity =
     (if length (remdups (map length [date, temperature, wind, humidity])) > 1
      then Inl (ValueError ''All arrays must be of the same length'')
      else Inr \<lparr>Date = date, Temperature_F = temperature,
                Surface_Wind_Speed_mph = wind, Relative_Humidity_pct = humidity\<rparr>)"

text \<open>
  \<^verbatim>\<open>
  def save_forecast_to_csv(all_dates, all_hours, temp_values, wind_values, humidity_values, filename='weather_data.csv'):
      data = []
      for i in range(len(all_dates)):
          data.append({
              'Date': all_dates[i] if i < len(all_dates) else '',
              'Hour': all_hours[i] if i < len(all_hours) else '',
              'Temperature (F)': temp_values[i] if i < len(temp_values) else '',
              'Surface Wind Speed (mph)': wind_values[i] if i < len(wind_values) else '',
              'Relative Humidity (%)': humidity_values[i] if i < len(humidity_values) else ''
          })
      df = pd.DataFrame(data)
      df.to_csv(filename, index=False)
  \<close>
  The model returns the rows that are written; the file itself is not
  modelled.
\<close>

record csv_row =
  row_Date :: string
  row_Hour :: string
  row_Temperature_F :: string
  row_Surface_Wind_Speed_mph :: string
  row_Relative_Humidity_pct :: string

definition save_forecast_to_csv ::
  "string list \<Rightarrow> string list \<Rightarrow> string list \<Rightarrow> string list \<Rightarrow> string list \<Rightarrow> csv_row list" where
  "save_forecast_to_csv all_dates all_hours temp_values wind_values humidity_values =
     map (\<lambda>i. \<lparr>row_Date = (if i < length all_dates then all_dates ! i else ''''),
               row_Hour = (if i < length all_hours then all_hours ! i else ''''),
               row_Temperature_F = (if i < length temp_values then temp_values ! i else ''''),
               row_Surface_Wind_Speed_mph = (if i < length wind_values then wind_values ! i else ''''),
               row_Relative_Humidity_pct =
                 (if i < length humidity_values then humidity_values ! i else '''')\<rparr>)
       [0..<length all_dates]"

text \<open>
  \<open>d.split(',')[1].strip() if ',' in d else ''\<close>: the text between the first
  comma and the next one, stripped.
\<close>

definition hour_of_display :: "string \<Rightarrow> string" where
  "hour_of_display d =
     (if CHR '','' \<in> set d
      then strip (takeWhile (\<lambda>c. c \<noteq> CHR '','') (tl (dropWhile (\<lambda>c. c \<noteq> CHR '','') d)))
      else '''')"

text \<open>
  The steps of app.py from the five accumulators to the exported rows:
  combine, format, build the frame, save.  An exception of any step leaves
  the script's outer \<open>try\<close> block, which ends the fetch cycle.
  \<^verbatim>\<open>
  save_forecast_to_csv(
      df['Date'].tolist(),
      [d.split(',')[1].strip() if ',' in d else '' for d in df['Date'].tolist()],
      df['Temperature (F)'].tolist(),
      df['Surface Wind Speed (mph)'].tolist(),
      df['Relative Humidity (%)'].tolist()
  )
  \<close>
\<close>

definition forecast_rows ::
  "string list \<Rightarrow> string list \<Rightarrow> string list \<Rightarrow> string list \<Rightarrow> string list \<Rightarrow> exn + csv_row list" where
  "forecast_rows all_dates all_hours temp_values wind_values humidity_values =
     (case format_loop (combine all_dates all_hours) [] of
        Inl e \<Rightarrow> Inl e
      | Inr formatted \<Rightarrow>
          (case pd_DataFrame formatted temp_values wind_values humidity_values of
             Inl e \<Rightarrow> Inl e
           | Inr df \<Rightarrow>
               Inr (save_forecast_to_csv (Date df) (map hour_of_display (Date df))
                      (Temperature_F df) (Surface_Wind_Speed_mph df) (Relative_Humidity_pct df))))"

section \<open>Fetched pages\<close>

text \<open>
  \<open>requests.get\<close> either raises (no connection, a timeout) or returns a
  response with a status code and a body.  The world is a function from
  the URL to that outcome.
\<close>

datatype 'a http_result =
    ConnectionFailed string
  | Response (status_code: nat) (content: 'a)

text \<open>
  A page is used only through BeautifulSoup, so the body of a page
  response is the parsed tree: tags with a name, an \<open>id\<close>, the list of
  their classes and their children, and strings.
\<close>

datatype node =
    Tag (tag_name: string) (tag_id: "string option") (tag_class: "string list")
      (tag_contents: "node list")
  | NavigableString string

text \<open>All nodes below a node, in document order.\<close>

fun descendants :: "node \<Rightarrow> node list" where
  "descendants (NavigableString s) = []"
| "descendants (Tag n i c kids) = concat (map (\<lambda>k. k # descendants k) kids)"

text \<open>\<open>find_all(name)\<close> and \<open>find_all([names])\<close>: the tags below with one of the names.\<close>

definition find_all :: "string list \<Rightarrow> node \<Rightarrow> node list" where
  "find_all names root =
     filter (\<lambda>d. case d of Tag n i c kids \<Rightarrow> n \<in> set names | NavigableString s \<Rightarrow> False)
       (descendants root)"







text \<open>\<open>xs[i]\<close> for a non-negative \<open>i\<close>.\<close>

definition py_getitem :: "'a list \<Rightarrow> nat \<Rightarrow> exn + 'a" where
  "py_getitem xs i =
     (if i < length xs then Inr (xs ! i) else Inl (IndexError ''list index out of range''))"

section \<open>Digital forecast: the table\<close>

text \<open>
  \<^verbatim>\<open>
  soup = BeautifulSoup(resp.content, "html.parser")
  table = soup.find_all("table")[4]
  \<close>
  in both entry points.
\<close>

definition forecast_table :: "node \<Rightarrow> exn + node" where
  "forecast_table soup = py_getitem (find_all [''table''] soup) 4"

section \<open>Current conditions\<close>


text \<open>The returned dictionary, with its four keys.\<close>

record weather =
  temperature :: string
  humidity :: string
  wind_speed :: string
  conditions :: string


section \<open>Geocoding\<close>

text \<open>
  \<^verbatim>\<open>
  def get_coordinates(location):
      try:
          formatted_location = location.replace(' ', '+')
          url = f"https://nominatim.openstreetmap.org/search?format=json&q={formatted_location}"
          headers = {...}
          response = requests.get(url, headers=headers)
          if response.status_code != 200:
              raise Exception(f"Geocoding API request failed with status code: {response.status_code}")
          data = response.json()
          if not data:
              raise Exception(f"No coordinates found for location: {location}")
          first_result = data[0]
          lat = first_result['lat']
          lon = first_result['lon']
          time.sleep(1)
          return lat, lon
      except Exception as e:
          raise Exception(f"Error getting coordinates: {str(e)}")
  \<close>
  The body of a geocoding response is what \<open>response.json()\<close> makes of it:
  a decoding error, or the array of candidates, each an object with
  string values.  The pause of one second is not modelled.
\<close>

datatype json_body =
    NotJson string
  | JsonArray "(string \<times> string) list list"

fun str_exn :: "exn \<Rightarrow> string" where
  "str_exn (Exception m) = m"
| "str_exn (ValueError m) = m"
| "str_exn (IndexError m) = m"
| "str_exn (KeyError k) = [CHR 0x27] @ k @ [CHR 0x27]"
| "str_exn (AttributeError m) = m"
| "str_exn (RequestException m) = m"

definition nominatim_url :: "string \<Rightarrow> string" where
  "nominatim_url location =
     ''https://nominatim.openstreetmap.org/search?format=json&q=''
       @ map (\<lambda>c. if c = CHR '' '' then CHR ''+'' else c) location"

definition py_lookup :: "(string \<times> string) list \<Rightarrow> string \<Rightarrow> exn + string" where
  "py_lookup d k = (case map_of d k of None \<Rightarrow> Inl (KeyError k) | Some v \<Rightarrow> Inr v)"

text \<open>The \<open>try\<close> block.\<close>

definition get_coordinates_body ::
  "(string \<Rightarrow> json_body http_result) \<Rightarrow> string \<Rightarrow> exn + string \<times> string" where
  "get_coordinates_body requests_get location =
     (case requests_get (nominatim_url location) of
        ConnectionFailed msg \<Rightarrow> Inl (RequestException msg)
      | Response status body \<Rightarrow>
          if status \<noteq> 200
          then Inl (Exception (''Geocoding API request failed with status code: '' @ str_nat status))
          else (case body of
                  NotJson msg \<Rightarrow> Inl (ValueError msg)
                | JsonArray data \<Rightarrow>
                    if data = []
                    then Inl (Exception (''No coordinates found for location: '' @ location))
                    else (case py_lookup (data ! 0) ''lat'' of
                            Inl e \<Rightarrow> Inl e
                          | Inr lat \<Rightarrow>
                              (case py_lookup (data ! 0) ''lon'' of
                                 Inl e \<Rightarrow> Inl e
                               | Inr lon \<Rightarrow> Inr (lat, lon)))))"

text \<open>The handler wraps every exception of the block.\<close>

definition get_coordinates ::
  "(string \<Rightarrow> json_body http_result) \<Rightarrow> string \<Rightarrow> exn + string \<times> string" where
  "get_coordinates requests_get location =
     (case get_coordinates_body requests_get location of
        Inl e \<Rightarrow> Inl (Exception (''Error getting coordinates: '' @ str_exn e))
      | Inr latlon \<Rightarrow> Inr latlon)"

section \<open>Notions used in the statements\<close>


text \<open>A page with six empty tables, told apart by their ids.\<close>

definition six_tables :: node where
  "six_tables = Tag ''[document]'' None []
     [Tag ''table'' (Some ''t0'') [] [], Tag ''table'' (Some ''t1'') [] [],
      Tag ''table'' (Some ''t2'') [] [], Tag ''table'' (Some ''t3'') [] [],
      Tag ''table'' (Some ''t4'') [] [], Tag ''table'' (Some ''t5'') [] []]"





text \<open>Geocoding services: one that knows no place, one that knows two candidates.\<close>

definition empty_geocoder :: "string \<Rightarrow> json_body http_result" where
  "empty_geocoder url = Response 200 (JsonArray [])"

definition two_candidates :: "string \<Rightarrow> json_body http_result" where
  "two_candidates url = Response 200 (JsonArray
     [[(''place_id'', ''1''), (''lat'', ''40.7596198''), (''lon'', ''-111.886797'')],
      [(''place_id'', ''2''), (''lat'', ''40.6668916''), (''lon'', ''-111.8879909'')]])"

section \<open>Properties of the pair reassembly\<close>

lemma hour_slice_is_slice:
  "hour_slice ad b hs idx d = take (length (hour_slice ad b hs idx d)) (drop idx hs)"
  by (simp add: hour_slice_def min_def)

lemma hour_slice_bound:
  "idx \<le> length hs \<Longrightarrow> idx + length (hour_slice ad b hs idx d) \<le> length hs"
  by (auto simp: hour_slice_def min_def)

lemma hour_slice_at_end:
  "length hs \<le> idx \<Longrightarrow> hour_slice ad b hs idx d = []"
  by (simp add: hour_slice_def)

lemma combine_loop_append:
  "combine_loop ad b hs (xs @ ys) st = combine_loop ad b hs ys (combine_loop ad b hs xs st)"
proof (induction xs arbitrary: st)
  case Nil
  show ?case by (cases st) simp
next
  case (Cons x xs)
  show ?case by (cases st) (simp add: Let_def Cons.IH)
qed

lemma combine_loop_cursor_mono:
  "idx \<le> fst (combine_loop ad b hs ds (idx, acc))"
proof (induction ds arbitrary: idx acc)
  case Nil
  show ?case by simp
next
  case (Cons d ds)
  have "idx + length (hour_slice ad b hs idx d)
        \<le> fst (combine_loop ad b hs ds (idx + length (hour_slice ad b hs idx d),
                   acc @ map (Pair d) (hour_slice ad b hs idx d)))"
    by (rule Cons.IH)
  then show ?case by (simp add: Let_def)
qed

lemma combine_loop_cursor_bound:
  "idx \<le> length hs \<Longrightarrow> fst (combine_loop ad b hs ds (idx, acc)) \<le> length hs"
proof (induction ds arbitrary: idx acc)
  case Nil
  then show ?case by simp
next
  case (Cons d ds)
  from Cons.prems have "idx + length (hour_slice ad b hs idx d) \<le> length hs"
    by (rule hour_slice_bound)
  then show ?case by (simp add: Let_def Cons.IH)
qed

lemma combine_loop_hours:
  "map snd (snd (combine_loop ad b hs ds (idx, acc))) =
     map snd acc @ take (fst (combine_loop ad b hs ds (idx, acc)) - idx) (drop idx hs)"
proof (induction ds arbitrary: idx acc)
  case Nil
  show ?case by simp
next
  case (Cons d ds)
  define hours where "hours = hour_slice ad b hs idx d"
  define idx' where "idx' = fst (combine_loop ad b hs ds (idx + length hours, acc @ map (Pair d) hours))"
  have step: "combine_loop ad b hs (d # ds) (idx, acc) =
          combine_loop ad b hs ds (idx + length hours, acc @ map (Pair d) hours)"
    by (simp add: hours_def Let_def)
  have mono: "idx + length hours \<le> idx'"
    unfolding idx'_def by (rule combine_loop_cursor_mono)
  have slice: "hours = take (length hours) (drop idx hs)"
    unfolding hours_def by (rule hour_slice_is_slice)
  have "map snd (snd (combine_loop ad b hs ds (idx + length hours, acc @ map (Pair d) hours)))
        = map snd (acc @ map (Pair d) hours) @ take (idx' - (idx + length hours)) (drop (idx + length hours) hs)"
    unfolding idx'_def by (rule Cons.IH)
  also have "\<dots> = map snd acc @ (hours @ take (idx' - (idx + length hours)) (drop (length hours) (drop idx hs)))"
    by (simp add: comp_def add.commute)
  also have "hours @ take (idx' - (idx + length hours)) (drop (length hours) (drop idx hs))
        = take (length hours + (idx' - (idx + length hours))) (drop idx hs)"
    by (subst slice) (simp only: take_add [symmetric])
  also have "length hours + (idx' - (idx + length hours)) = idx' - idx"
    using mono by simp
  finally show ?case
    by (simp only: step idx'_def)
qed

lemma combine_loop_reaches_end:
  "last ad \<in> set ds \<Longrightarrow> idx \<le> length hs \<Longrightarrow>
   fst (combine_loop ad b hs ds (idx, acc)) = length hs"
proof (induction ds arbitrary: idx acc)
  case Nil
  then show ?case by simp
next
  case (Cons d ds)
  define hours where "hours = hour_slice ad b hs idx d"
  have bound: "idx + length hours \<le> length hs"
    unfolding hours_def using Cons.prems(2) by (rule hour_slice_bound)
  show ?case
  proof (cases "d = last ad")
    case True
    then have "idx + length hours = length hs"
      using Cons.prems(2) by (simp add: hours_def hour_slice_def)
    moreover have "idx + length hours \<le> fst (combine_loop ad b hs ds (idx + length hours, acc @ map (Pair d) hours))"
      by (rule combine_loop_cursor_mono)
    moreover have "fst (combine_loop ad b hs ds (idx + length hours, acc @ map (Pair d) hours)) \<le> length hs"
      using bound by (rule combine_loop_cursor_bound)
    ultimately show ?thesis by (simp add: hours_def Let_def)
  next
    case False
    with Cons.prems(1) have "last ad \<in> set ds" by auto
    then have "fst (combine_loop ad b hs ds (idx + length hours, acc @ map (Pair d) hours)) = length hs"
      using bound by (rule Cons.IH)
    then show ?thesis by (simp add: hours_def Let_def)
  qed
qed

lemma combine_loop_full_blocks:
  "last ad \<notin> set ds \<Longrightarrow> idx + length ds * b \<le> length hs \<Longrightarrow>
   fst (combine_loop ad b hs ds (idx, acc)) = idx + length ds * b"
proof (induction ds arbitrary: idx acc)
  case Nil
  then show ?case by simp
next
  case (Cons d ds)
  from Cons.prems have len: "length (hour_slice ad b hs idx d) = b"
    by (auto simp: hour_slice_def min_def)
  from Cons.prems have "fst (combine_loop ad b hs ds (idx + b, acc @ map (Pair d) (hour_slice ad b hs idx d)))
      = idx + b + length ds * b"
    by (intro Cons.IH) simp_all
  then show ?case by (simp add: Let_def len)
qed

lemma cursor_at_0: "cursor_at ad hs 0 = 0"
  by (simp add: cursor_at_def)

lemma combine_loop_snoc:
  "combine_loop ad b hs (xs @ [d]) st =
     (fst (combine_loop ad b hs xs st) + length (hour_slice ad b hs (fst (combine_loop ad b hs xs st)) d),
      snd (combine_loop ad b hs xs st) @ map (Pair d) (hour_slice ad b hs (fst (combine_loop ad b hs xs st)) d))"
  by (cases "combine_loop ad b hs xs st") (simp add: combine_loop_append Let_def)

lemma cursor_at_Suc:
  "i < length ad \<Longrightarrow> cursor_at ad hs (Suc i) = cursor_at ad hs i + length (block_at ad hs i)"
  by (simp add: cursor_at_def block_at_def take_Suc_conv_app_nth combine_loop_snoc)

lemma pairs_upto:
  "n \<le> length ad \<Longrightarrow>
   snd (combine_loop ad (length hs div length ad) hs (take n ad) (0, [])) =
     concat (map (\<lambda>i. map (Pair (ad ! i)) (block_at ad hs i)) [0..<n])"
proof (induction n)
  case 0
  show ?case by simp
next
  case (Suc n)
  then have "n < length ad" and "n \<le> length ad" by simp_all
  then show ?case
    by (simp add: take_Suc_conv_app_nth combine_loop_snoc Suc.IH block_at_def cursor_at_def)
qed

lemma combine_blocks:
  "ad \<noteq> [] \<Longrightarrow> hs \<noteq> [] \<Longrightarrow>
   combine ad hs = concat (map (\<lambda>i. map (Pair (ad ! i)) (block_at ad hs i)) [0..<length ad])"
  using pairs_upto [of "length ad" ad hs] by (simp add: combine_def)

lemma combine_hours:
  assumes "ad \<noteq> []" and "hs \<noteq> []"
  shows "map snd (combine ad hs) = hs"
proof -
  let ?r = "combine_loop ad (length hs div length ad) hs ad (0, [])"
  from assms(1) have "last ad \<in> set ad" by simp
  then have "fst ?r = length hs"
    by (rule combine_loop_reaches_end) simp
  then show ?thesis
    using assms combine_loop_hours [of ad "length hs div length ad" hs ad 0 "[]"]
    by (simp add: combine_def)
qed

lemma cursor_at_bound: "cursor_at ad hs i \<le> length hs"
  unfolding cursor_at_def by (rule combine_loop_cursor_bound) simp

lemma block_at_is_slice:
  "block_at ad hs i = take (length (block_at ad hs i)) (drop (cursor_at ad hs i) hs)"
  unfolding block_at_def by (rule hour_slice_is_slice)

lemma first_final_less: "ad \<noteq> [] \<Longrightarrow> first_final ad < length ad"
proof -
  assume ne: "ad \<noteq> []"
  have "takeWhile (\<lambda>d. d \<noteq> last ad) ad \<noteq> ad"
    using ne by (auto simp: takeWhile_eq_all_conv)
  then have "length (takeWhile (\<lambda>d. d \<noteq> last ad) ad) \<noteq> length ad"
    by (metis takeWhile_eq_take take_all order_refl)
  moreover have "length (takeWhile (\<lambda>d. d \<noteq> last ad) ad) \<le> length ad"
    by (rule length_takeWhile_le)
  ultimately show ?thesis by (simp add: first_final_def)
qed

lemma first_final_nth: "ad \<noteq> [] \<Longrightarrow> ad ! first_final ad = last ad"
  using nth_length_takeWhile [of "\<lambda>d. d \<noteq> last ad" ad] first_final_less [of ad]
  by (simp add: first_final_def)

lemma first_final_before: "j < first_final ad \<Longrightarrow> ad ! j \<noteq> last ad"
  unfolding first_final_def
  using takeWhile_nth [of j "\<lambda>d. d \<noteq> last ad" ad] nth_mem [of j "takeWhile (\<lambda>d. d \<noteq> last ad) ad"]
  by (auto dest: set_takeWhileD)

lemma final_not_in_prefix:
  assumes "i \<le> first_final ad"
  shows "last ad \<notin> set (take i ad)"
proof
  assume "last ad \<in> set (take i ad)"
  then obtain j where j: "j < length (take i ad)" "take i ad ! j = last ad"
    by (auto simp: in_set_conv_nth)
  then have "j < first_final ad" and "ad ! j = last ad" using assms by simp_all
  then show False using first_final_before by blast
qed

lemma block_times_le:
  assumes "i < length ad"
  shows "i * (length hs div length ad) + length hs div length ad \<le> length (hs::'a list)"
proof -
  have "Suc i * (length hs div length ad) \<le> length ad * (length hs div length ad)"
    using assms by (intro mult_le_mono1) simp
  also have "\<dots> \<le> length hs" by simp
  finally show ?thesis by simp
qed

lemma cursor_at_before_final:
  assumes "ad \<noteq> []" and "i \<le> first_final ad"
  shows "cursor_at ad hs i = i * (length hs div length ad)"
proof -
  have i: "i < length ad" using assms first_final_less [of ad] by simp
  have "last ad \<notin> set (take i ad)" using assms(2) by (rule final_not_in_prefix)
  moreover have "0 + length (take i ad) * (length hs div length ad) \<le> length hs"
    using block_times_le [OF i, of hs] i by simp
  ultimately have "fst (combine_loop ad (length hs div length ad) hs (take i ad) (0, []))
      = 0 + length (take i ad) * (length hs div length ad)"
    by (rule combine_loop_full_blocks)
  then show ?thesis using i by (simp add: cursor_at_def)
qed

lemma block_at_before_final:
  assumes "ad \<noteq> []" and "i < first_final ad"
  shows "block_at ad hs i =
           take (length hs div length ad) (drop (i * (length hs div length ad)) hs)"
    and "length (block_at ad hs i) = length hs div length ad"
proof -
  have i: "i < length ad" using assms first_final_less [of ad] by simp
  have c: "cursor_at ad hs i = i * (length hs div length ad)"
    using assms by (intro cursor_at_before_final) simp_all
  have ne: "ad ! i \<noteq> last ad" using assms(2) by (rule first_final_before)
  show "block_at ad hs i = take (length hs div length ad) (drop (i * (length hs div length ad)) hs)"
    using ne by (simp add: block_at_def c hour_slice_def)
  then show "length (block_at ad hs i) = length hs div length ad"
    using block_times_le [OF i, of hs] by simp
qed

lemma block_at_final:
  assumes "ad \<noteq> []"
  shows "block_at ad hs (first_final ad) = drop (cursor_at ad hs (first_final ad)) hs"
  using first_final_nth [OF assms] by (simp add: block_at_def hour_slice_def)

lemma cursor_at_after_final:
  assumes "ad \<noteq> []" and "first_final ad < j"
  shows "cursor_at ad hs j = length hs"
proof -
  have k: "first_final ad < length ad" using assms(1) by (rule first_final_less)
  have "take j ad ! first_final ad = ad ! first_final ad" using assms(2) by simp
  moreover have "first_final ad < length (take j ad)" using k assms(2) by simp
  ultimately have "last ad \<in> set (take j ad)"
    using first_final_nth [OF assms(1)] nth_mem by metis
  then show ?thesis
    unfolding cursor_at_def by (rule combine_loop_reaches_end) simp
qed

lemma block_at_after_final:
  assumes "ad \<noteq> []" and "first_final ad < j"
  shows "block_at ad hs j = []"
  unfolding block_at_def
  by (rule hour_slice_at_end) (simp add: cursor_at_after_final [OF assms])

section \<open>Properties of the display formatting\<close>














section \<open>Properties of the data frame and the exported rows\<close>

lemma format_loop_length:
  "format_loop ps acc = Inr out \<Longrightarrow> length out = length acc + length ps"
proof (induction ps arbitrary: acc)
  case Nil
  then show ?case by simp
next
  case (Cons p ps)
  then show ?case
    by (cases "format_pair p") (auto dest: Cons.IH)
qed

lemma pd_DataFrame_aligned:
  "length t = length d \<Longrightarrow> length w = length d \<Longrightarrow> length h = length d \<Longrightarrow>
   pd_DataFrame d t w h =
     Inr \<lparr>Date = d, Temperature_F = t, Surface_Wind_Speed_mph = w, Relative_Humidity_pct = h\<rparr>"
  by (simp add: pd_DataFrame_def)

lemma pd_DataFrame_misaligned:
  "\<not> (length t = length d \<and> length w = length d \<and> length h = length d) \<Longrightarrow>
   pd_DataFrame d t w h = Inl (ValueError ''All arrays must be of the same length'')"
  by (auto simp: pd_DataFrame_def)

lemma guarded_nth_map:
  fixes xs :: "string list"
  assumes "length xs = n"
  shows "map (\<lambda>i. if i < length xs then xs ! i else []) [0..<n] = xs"
proof -
  have "map (\<lambda>i. if i < length xs then xs ! i else []) [0..<n] = map ((!) xs) [0..<length xs]"
    using assms by simp
  then show ?thesis by (simp only: map_nth)
qed

lemma save_forecast_to_csv_aligned:
  assumes "length hs = length ds" "length t = length ds" "length w = length ds" "length h = length ds"
  shows "length (save_forecast_to_csv ds hs t w h) = length ds"
    and "map row_Date (save_forecast_to_csv ds hs t w h) = ds"
    and "map row_Hour (save_forecast_to_csv ds hs t w h) = hs"
    and "map row_Temperature_F (save_forecast_to_csv ds hs t w h) = t"
    and "map row_Surface_Wind_Speed_mph (save_forecast_to_csv ds hs t w h) = w"
    and "map row_Relative_Humidity_pct (save_forecast_to_csv ds hs t w h) = h"
proof -
  show "length (save_forecast_to_csv ds hs t w h) = length ds"
    by (simp add: save_forecast_to_csv_def)
  show "map row_Date (save_forecast_to_csv ds hs t w h) = ds"
    using guarded_nth_map [of ds "length ds"] by (simp add: save_forecast_to_csv_def comp_def)
  show "map row_Hour (save_forecast_to_csv ds hs t w h) = hs"
    using guarded_nth_map [OF assms(1)] by (simp add: save_forecast_to_csv_def comp_def)
  show "map row_Temperature_F (save_forecast_to_csv ds hs t w h) = t"
    using guarded_nth_map [OF assms(2)] by (simp add: save_forecast_to_csv_def comp_def)
  show "map row_Surface_Wind_Speed_mph (save_forecast_to_csv ds hs t w h) = w"
    using guarded_nth_map [OF assms(3)] by (simp add: save_forecast_to_csv_def comp_def)
  show "map row_Relative_Humidity_pct (save_forecast_to_csv ds hs t w h) = h"
    using guarded_nth_map [OF assms(4)] by (simp add: save_forecast_to_csv_def comp_def)
qed

text \<open>
  Called on lists of different lengths, \<open>save_forecast_to_csv\<close> itself fills
  the missing cells with the empty string.  The script calls it with the
  columns of the frame only, which have one length.
\<close>

lemma save_forecast_to_csv_fills_short_lists:
  "save_forecast_to_csv [''5/10, 22:00'', ''5/10, 23:00''] [''22:00''] [''61''] [] [] =
     [\<lparr>row_Date = ''5/10, 22:00'', row_Hour = ''22:00'', row_Temperature_F = ''61'',
        row_Surface_Wind_Speed_mph = [], row_Relative_Humidity_pct = []\<rparr>,
      \<lparr>row_Date = ''5/10, 23:00'', row_Hour = [], row_Temperature_F = [],
        row_Surface_Wind_Speed_mph = [], row_Relative_Humidity_pct = []\<rparr>]"
  by code_simp

section \<open>Properties of the current-conditions extraction\<close>



section \<open>From the accumulators to the rows\<close>

lemma forecast_rows_when_formatted:
  assumes "format_loop (combine all_dates all_hours) [] = Inr formatted"
  shows "length formatted = length (combine all_dates all_hours)
    \<and> (all_dates \<noteq> [] \<and> all_hours \<noteq> [] \<longrightarrow> length formatted = length all_hours)
    \<and> (\<not> (length temp_values = length formatted \<and> length wind_values = length formatted
            \<and> length humidity_values = length formatted) \<longrightarrow>
        forecast_rows all_dates all_hours temp_values wind_values humidity_values =
          Inl (ValueError ''All arrays must be of the same length''))
    \<and> (length temp_values = length formatted \<and> length wind_values = length formatted
          \<and> length humidity_values = length formatted \<longrightarrow>
        (\<exists>rows. forecast_rows all_dates all_hours temp_values wind_values humidity_values = Inr rows
           \<and> length rows = length formatted
           \<and> map row_Date rows = formatted
           \<and> map row_Temperature_F rows = temp_values
           \<and> map row_Surface_Wind_Speed_mph rows = wind_values
           \<and> map row_Relative_Humidity_pct rows = humidity_values))"
proof -
  have len: "length formatted = length (combine all_dates all_hours)"
    using format_loop_length [OF assms] by simp
  have hours: "all_dates \<noteq> [] \<and> all_hours \<noteq> [] \<longrightarrow> length formatted = length all_hours"
  proof
    assume "all_dates \<noteq> [] \<and> all_hours \<noteq> []"
    then have "map snd (combine all_dates all_hours) = all_hours"
      by (simp add: combine_hours)
    then have "length (map snd (combine all_dates all_hours)) = length all_hours"
      by simp
    then show "length formatted = length all_hours" using len by simp
  qed
  have bad: "\<not> (length temp_values = length formatted \<and> length wind_values = length formatted
            \<and> length humidity_values = length formatted) \<longrightarrow>
        forecast_rows all_dates all_hours temp_values wind_values humidity_values =
          Inl (ValueError ''All arrays must be of the same length'')"
    by (simp add: forecast_rows_def assms pd_DataFrame_misaligned)
  have good: "length temp_values = length formatted \<and> length wind_values = length formatted
          \<and> length humidity_values = length formatted \<longrightarrow>
        (\<exists>rows. forecast_rows all_dates all_hours temp_values wind_values humidity_values = Inr rows
           \<and> length rows = length formatted
           \<and> map row_Date rows = formatted
           \<and> map row_Temperature_F rows = temp_values
           \<and> map row_Surface_Wind_Speed_mph rows = wind_values
           \<and> map row_Relative_Humidity_pct rows = humidity_values)"
  proof
    assume a: "length temp_values = length formatted \<and> length wind_values = length formatted
          \<and> length humidity_values = length formatted"
    let ?rows = "save_forecast_to_csv formatted (map hour_of_display formatted)
                   temp_values wind_values humidity_values"
    have run: "forecast_rows all_dates all_hours temp_values wind_values humidity_values = Inr ?rows"
      using a by (simp add: forecast_rows_def assms pd_DataFrame_aligned)
    have h: "length (map hour_of_display formatted) = length formatted" by simp
    from a have t: "length temp_values = length formatted"
      and w: "length wind_values = length formatted"
      and u: "length humidity_values = length formatted" by simp_all
    show "\<exists>rows. forecast_rows all_dates all_hours temp_values wind_values humidity_values = Inr rows
           \<and> length rows = length formatted
           \<and> map row_Date rows = formatted
           \<and> map row_Temperature_F rows = temp_values
           \<and> map row_Surface_Wind_Speed_mph rows = wind_values
           \<and> map row_Relative_Humidity_pct rows = humidity_values"
      using run save_forecast_to_csv_aligned [OF h t w u] by simp
  qed
  from len hours bad good show ?thesis by (intro conjI)
qed

section \<open>When the final label occurs once\<close>

text \<open>
  If the label of the final date occurs nowhere else in \<open>all_dates\<close>, the
  blocks are the positional ones: every date but the last receives
  \<open>hours_per_block\<close> tokens and the last receives the rest.
\<close>

lemma final_label_unique_first_final:
  assumes "ad \<noteq> []" and "last ad \<notin> set (butlast ad)"
  shows "first_final ad = length ad - 1"
proof (rule ccontr)
  assume "first_final ad \<noteq> length ad - 1"
  with first_final_less [OF assms(1)] have k: "first_final ad < length ad - 1" by simp
  then have "butlast ad ! first_final ad = ad ! first_final ad"
    by (simp add: nth_butlast)
  moreover have "first_final ad < length (butlast ad)" using k by simp
  ultimately have "ad ! first_final ad \<in> set (butlast ad)"
    using nth_mem by metis
  with first_final_nth [OF assms(1)] assms(2) show False by simp
qed

lemma combine_positional_blocks:
  assumes "ad \<noteq> []" and "hs \<noteq> []" and "last ad \<notin> set (butlast ad)"
  shows "\<forall>i<length ad - 1.
           cursor_at ad hs i = i * (length hs div length ad)
         \<and> block_at ad hs i = take (length hs div length ad) (drop (i * (length hs div length ad)) hs)"
    and "block_at ad hs (length ad - 1) = drop ((length ad - 1) * (length hs div length ad)) hs"
proof -
  have k: "first_final ad = length ad - 1"
    using assms(1,3) by (rule final_label_unique_first_final)
  show "\<forall>i<length ad - 1.
           cursor_at ad hs i = i * (length hs div length ad)
         \<and> block_at ad hs i = take (length hs div length ad) (drop (i * (length hs div length ad)) hs)"
    using cursor_at_before_final [OF assms(1), of _ hs] block_at_before_final(1) [OF assms(1), of _ hs]
    by (simp add: k)
  show "block_at ad hs (length ad - 1) = drop ((length ad - 1) * (length hs div length ad)) hs"
    using block_at_final [OF assms(1), of hs] cursor_at_before_final [OF assms(1), of "length ad - 1" hs]
    by (simp add: k)
qed

section \<open>The claims\<close>

text \<open>
  Claim C1.  For non-empty dates and hours the reassembly is to give every
  date at a position before the last exactly \<open>block = H // D\<close> consecutive
  hour tokens and the date at the last position the rest.  The loop decides
  "last" by comparing label texts, so on a dates list whose final label
  occurs earlier the claim fails: with dates \<open>5/10, 5/11, 5/10\<close> and six
  hours (block 2) the date at position 0 takes all six tokens, the date at
  position 1 takes none, and all six pairs carry the label \<open>5/10\<close>.  (Where
  the final label occurs once, \<open>combine_positional_blocks\<close> gives the
  positional blocks.)
\<close>

theorem combine_repeated_final_label:
  "combine [''5/10'', ''5/11'', ''5/10''] [''22'', ''23'', ''0'', ''1'', ''2'', ''3''] =
     [(''5/10'', ''22''), (''5/10'', ''23''), (''5/10'', ''0''),
      (''5/10'', ''1''), (''5/10'', ''2''), (''5/10'', ''3'')]
   \<and> length [''22'', ''23'', ''0'', ''1'', ''2'', ''3''] div length [''5/10'', ''5/11'', ''5/10''] = (2::nat)
   \<and> block_at [''5/10'', ''5/11'', ''5/10''] [''22'', ''23'', ''0'', ''1'', ''2'', ''3''] 0 =
       [''22'', ''23'', ''0'', ''1'', ''2'', ''3'']
   \<and> block_at [''5/10'', ''5/11'', ''5/10''] [''22'', ''23'', ''0'', ''1'', ''2'', ''3''] 1 = []
   \<and> block_at [''5/10'', ''5/11'', ''5/10''] [''22'', ''23'', ''0'', ''1'', ''2'', ''3''] 0 \<noteq>
       take 2 (drop (0 * 2) [''22'', ''23'', ''0'', ''1'', ''2'', ''3''])
   \<and> block_at [''5/10'', ''5/11'', ''5/10''] [''22'', ''23'', ''0'', ''1'', ''2'', ''3''] 1 \<noteq>
       take 2 (drop (1 * 2) [''22'', ''23'', ''0'', ''1'', ''2'', ''3''])"
  by code_simp

text \<open>
  Claim C2.  The claim says that the table at index 5 (the sixth) is
  selected.  Both entry points index the result of \<open>find_all("table")\<close>
  with 4: on a page with six tables the fifth is taken, not the sixth.
\<close>

theorem sixth_table_not_selected:
  "find_all [''table''] six_tables ! 5 = Tag ''table'' (Some ''t5'') [] []
   \<and> forecast_table six_tables = Inr (Tag ''table'' (Some ''t4'') [] [])
   \<and> forecast_table six_tables \<noteq> Inr (find_all [''table''] six_tables ! 5)"
  by code_simp

text \<open>
  Claim C2, amended.  The forecast table is the table at index 4 of the
  tables of the page in document order (the fifth); a page with fewer than
  five tables raises \<open>IndexError\<close>.
\<close>

theorem forecast_table_is_fifth:
  "(4 < length (find_all [''table''] soup) \<longrightarrow>
        forecast_table soup = Inr (find_all [''table''] soup ! 4))
   \<and> (length (find_all [''table''] soup) \<le> 4 \<longrightarrow>
        forecast_table soup = Inl (IndexError ''list index out of range''))"
  by (simp add: forecast_table_def py_getitem_def)

theorem forecast_table_is_fifth_witness:
  "4 < length (find_all [''table''] six_tables)
   \<and> forecast_table six_tables = Inr (Tag ''table'' (Some ''t4'') [] [])"
proof -
  have l: "length (find_all [''table''] six_tables) = 6" by code_simp
  have n: "find_all [''table''] six_tables ! 4 = Tag ''table'' (Some ''t4'') [] []" by code_simp
  from forecast_table_is_fifth [of six_tables] l n show ?thesis by simp
qed

text \<open>
  Claim C3.  A date token of the form month/day is to be shown as
  "<Month name> <day>, HH:00".  The call \<open>datetime.strptime\<close> is made on
  the module \<open>datetime\<close> and raises \<open>AttributeError\<close> for every token, so
  the handler passes every date through unchanged: the scenario pairs give
  "5/10, 22:00" and so on, not "May 10, 22:00".  The hour is zero-padded
  to two digits as claimed.
\<close>

theorem scenario_dates_stay_raw:
  "datetime_strptime ''5/10'' ''%m/%d'' =
     Inl (AttributeError ''module datetime has no attribute strptime'')
   \<and> combine [''5/10'', ''5/11''] [''22'', ''23'', ''0'', ''1'', ''2''] =
     [(''5/10'', ''22''), (''5/10'', ''23''), (''5/11'', ''0''), (''5/11'', ''1''), (''5/11'', ''2'')]
   \<and> format_loop (combine [''5/10'', ''5/11''] [''22'', ''23'', ''0'', ''1'', ''2'']) [] =
     Inr [''5/10, 22:00'', ''5/10, 23:00'', ''5/11, 00:00'', ''5/11, 01:00'', ''5/11, 02:00'']
   \<and> format_pair (''5/10'', ''22'') = Inr ''5/10, 22:00''
   \<and> format_pair (''5/10'', ''22'') \<noteq> Inr ''May 10, 22:00''"
  by code_simp

text \<open>
  Claim C4.  When the value arrays are not all as long as the sequence of
  display strings (which has one entry per date-hour pair, that is \<open>H\<close>
  entries for non-empty dates and hours), building the records raises: the
  data frame constructor fails with \<open>ValueError\<close> and no row is produced.
  When the lengths agree, the rows are the positional zip, with nothing
  padded and nothing cut.
\<close>

theorem misaligned_arrays_raise:
  "(\<not> (length temp_values = length (combine all_dates all_hours)
          \<and> length wind_values = length (combine all_dates all_hours)
          \<and> length humidity_values = length (combine all_dates all_hours)) \<longrightarrow>
      (\<exists>e. forecast_rows all_dates all_hours temp_values wind_values humidity_values = Inl e))
   \<and> (format_loop (combine all_dates all_hours) [] = Inr formatted \<longrightarrow>
      length formatted = length (combine all_dates all_hours)
      \<and> (all_dates \<noteq> [] \<and> all_hours \<noteq> [] \<longrightarrow> length formatted = length all_hours)
      \<and> (\<not> (length temp_values = length formatted \<and> length wind_values = length formatted
              \<and> length humidity_values = length formatted) \<longrightarrow>
          forecast_rows all_dates all_hours temp_values wind_values humidity_values =
            Inl (ValueError ''All arrays must be of the same length''))
      \<and> (length temp_values = length formatted \<and> length wind_values = length formatted
            \<and> length humidity_values = length formatted \<longrightarrow>
          (\<exists>rows. forecast_rows all_dates all_hours temp_values wind_values humidity_values = Inr rows
             \<and> length rows = length formatted
             \<and> map row_Date rows = formatted
             \<and> map row_Temperature_F rows = temp_values
             \<and> map row_Surface_Wind_Speed_mph rows = wind_values
             \<and> map row_Relative_Humidity_pct rows = humidity_values)))"
proof -
  have raises: "(\<not> (length temp_values = length (combine all_dates all_hours)
          \<and> length wind_values = length (combine all_dates all_hours)
          \<and> length humidity_values = length (combine all_dates all_hours)) \<longrightarrow>
      (\<exists>e. forecast_rows all_dates all_hours temp_values wind_values humidity_values = Inl e))"
  proof
    assume mis: "\<not> (length temp_values = length (combine all_dates all_hours)
          \<and> length wind_values = length (combine all_dates all_hours)
          \<and> length humidity_values = length (combine all_dates all_hours))"
    show "\<exists>e. forecast_rows all_dates all_hours temp_values wind_values humidity_values = Inl e"
    proof (cases "format_loop (combine all_dates all_hours) []")
      case (Inl e)
      then show ?thesis by (simp add: forecast_rows_def)
    next
      case (Inr f)
      from format_loop_length [OF Inr] have "length f = length (combine all_dates all_hours)"
        by simp
      with mis have "\<not> (length temp_values = length f \<and> length wind_values = length f
          \<and> length humidity_values = length f)" by simp
      then show ?thesis
        by (simp add: forecast_rows_def Inr pd_DataFrame_misaligned)
    qed
  qed
  have formatted: "(format_loop (combine all_dates all_hours) [] = Inr formatted \<longrightarrow>
      length formatted = length (combine all_dates all_hours)
      \<and> (all_dates \<noteq> [] \<and> all_hours \<noteq> [] \<longrightarrow> length formatted = length all_hours)
      \<and> (\<not> (length temp_values = length formatted \<and> length wind_values = length formatted
              \<and> length humidity_values = length formatted) \<longrightarrow>
          forecast_rows all_dates all_hours temp_values wind_values humidity_values =
            Inl (ValueError ''All arrays must be of the same length''))
      \<and> (length temp_values = length formatted \<and> length wind_values = length formatted
            \<and> length humidity_values = length formatted \<longrightarrow>
          (\<exists>rows. forecast_rows all_dates all_hours temp_values wind_values humidity_values = Inr rows
             \<and> length rows = length formatted
             \<and> map row_Date rows = formatted
             \<and> map row_Temperature_F rows = temp_values
             \<and> map row_Surface_Wind_Speed_mph rows = wind_values
             \<and> map row_Relative_Humidity_pct rows = humidity_values)))"
    by (rule impI) (rule forecast_rows_when_formatted)
  from raises formatted show ?thesis by (rule conjI)
qed

theorem misaligned_arrays_raise_witness:
  "format_loop (combine [''5/10'', ''5/11''] [''22'', ''23'', ''0'', ''1'', ''2'']) [] =
     Inr [''5/10, 22:00'', ''5/10, 23:00'', ''5/11, 00:00'', ''5/11, 01:00'', ''5/11, 02:00'']
   \<and> forecast_rows [''5/10'', ''5/11''] [''22'', ''23'', ''0'', ''1'', ''2'']
        [''61'', ''60'', ''58'', ''57''] [''5'', ''6'', ''6'', ''7'', ''7'']
        [''40'', ''42'', ''45'', ''47'', ''50''] =
      Inl (ValueError ''All arrays must be of the same length'')"
proof -
  have f: "format_loop (combine [''5/10'', ''5/11''] [''22'', ''23'', ''0'', ''1'', ''2'']) [] =
     Inr [''5/10, 22:00'', ''5/10, 23:00'', ''5/11, 00:00'', ''5/11, 01:00'', ''5/11, 02:00'']"
    by code_simp
  from misaligned_arrays_raise [of "[''61'', ''60'', ''58'', ''57'']" "[''5/10'', ''5/11'']"
      "[''22'', ''23'', ''0'', ''1'', ''2'']" "[''5'', ''6'', ''6'', ''7'', ''7'']"
      "[''40'', ''42'', ''45'', ''47'', ''50'']"
      "[''5/10, 22:00'', ''5/10, 23:00'', ''5/11, 00:00'', ''5/11, 01:00'', ''5/11, 02:00'']"] f
  show ?thesis by simp
qed








text \<open>
  Claim C8.  When the geocoding lookup answers with an empty candidate
  list, \<open>get_coordinates\<close> raises the exception that reports that no
  coordinates were found for the location; when it answers with at least
  one candidate, the \<open>lat\<close> and \<open>lon\<close> of the first candidate are returned.
\<close>

theorem geocoding_first_candidate:
  "(requests_get (nominatim_url location) = Response 200 (JsonArray []) \<longrightarrow>
      get_coordinates requests_get location =
        Inl (Exception (''Error getting coordinates: No coordinates found for location: '' @ location)))
   \<and> (requests_get (nominatim_url location) = Response 200 (JsonArray (first_result # others))
        \<and> map_of first_result ''lat'' = Some lat \<and> map_of first_result ''lon'' = Some lon \<longrightarrow>
      get_coordinates requests_get location = Inr (lat, lon))"
  by (simp add: get_coordinates_def get_coordinates_body_def py_lookup_def)

theorem geocoding_first_candidate_witness:
  "get_coordinates empty_geocoder ''Atlantis'' =
      Inl (Exception ''Error getting coordinates: No coordinates found for location: Atlantis'')
   \<and> get_coordinates two_candidates ''Salt Lake City, UT'' = Inr (''40.7596198'', ''-111.886797'')"
  using geocoding_first_candidate [of empty_geocoder "''Atlantis''"]
    geocoding_first_candidate [of two_candidates "''Salt Lake City, UT''"
       "[(''place_id'', ''1''), (''lat'', ''40.7596198''), (''lon'', ''-111.886797'')]"
       "[[(''place_id'', ''2''), (''lat'', ''40.6668916''), (''lon'', ''-111.8879909'')]]"
       "''40.7596198''" "''-111.886797''"]
  by (simp add: empty_geocoder_def two_candidates_def)

text \<open>
  Claim C9.  For non-empty dates and hours, repeated labels included, the
  reassembly emits exactly \<open>H\<close> pairs, whose hours are the hours list in
  order; the pairs are the blocks of the dates in order; every block is
  the slice of the hours list that starts at the cursor, and the cursor
  advances by the length of the block; the first date whose label equals
  the final label receives everything from the cursor to the end, and
  every later date an empty block.
\<close>

theorem combine_emits_every_hour_once:
  assumes "all_dates \<noteq> []" and "all_hours \<noteq> []"
  shows "length (combine all_dates all_hours) = length all_hours
    \<and> map snd (combine all_dates all_hours) = all_hours
    \<and> combine all_dates all_hours =
        concat (map (\<lambda>i. map (Pair (all_dates ! i)) (block_at all_dates all_hours i))
                  [0..<length all_dates])
    \<and> cursor_at all_dates all_hours 0 = 0
    \<and> (\<forall>i<length all_dates.
          block_at all_dates all_hours i =
            take (length (block_at all_dates all_hours i))
              (drop (cursor_at all_dates all_hours i) all_hours)
        \<and> cursor_at all_dates all_hours (Suc i) =
            cursor_at all_dates all_hours i + length (block_at all_dates all_hours i))
    \<and> first_final all_dates < length all_dates
    \<and> all_dates ! first_final all_dates = last all_dates
    \<and> (\<forall>j<first_final all_dates. all_dates ! j \<noteq> last all_dates)
    \<and> block_at all_dates all_hours (first_final all_dates) =
        drop (cursor_at all_dates all_hours (first_final all_dates)) all_hours
    \<and> (\<forall>j. first_final all_dates < j \<longrightarrow> block_at all_dates all_hours j = [])"
proof -
  have hours: "map snd (combine all_dates all_hours) = all_hours"
    using assms by (rule combine_hours)
  then have "length (map snd (combine all_dates all_hours)) = length all_hours"
    by simp
  then have total: "length (combine all_dates all_hours) = length all_hours"
    by simp
  have blocks: "combine all_dates all_hours =
        concat (map (\<lambda>i. map (Pair (all_dates ! i)) (block_at all_dates all_hours i))
                  [0..<length all_dates])"
    using assms by (rule combine_blocks)
  have steps: "\<forall>i<length all_dates.
          block_at all_dates all_hours i =
            take (length (block_at all_dates all_hours i))
              (drop (cursor_at all_dates all_hours i) all_hours)
        \<and> cursor_at all_dates all_hours (Suc i) =
            cursor_at all_dates all_hours i + length (block_at all_dates all_hours i)"
    using block_at_is_slice cursor_at_Suc by blast
  have before: "\<forall>j<first_final all_dates. all_dates ! j \<noteq> last all_dates"
    using first_final_before by blast
  have after: "\<forall>j. first_final all_dates < j \<longrightarrow> block_at all_dates all_hours j = []"
    using block_at_after_final [OF assms(1)] by blast
  show ?thesis
    using total hours blocks cursor_at_0 [of all_dates all_hours] steps
      first_final_less [OF assms(1)] first_final_nth [OF assms(1)] before
      block_at_final [OF assms(1), of all_hours] after
    by (intro conjI)
qed

theorem combine_emits_every_hour_once_witness:
  "[''5/10'', ''5/11'', ''5/11''] \<noteq> [] \<and> [''22'', ''23'', ''0'', ''1'', ''2'', ''3''] \<noteq> []
   \<and> length (combine [''5/10'', ''5/11'', ''5/11''] [''22'', ''23'', ''0'', ''1'', ''2'', ''3'']) = 6
   \<and> first_final [''5/10'', ''5/11'', ''5/11''] = 1
   \<and> block_at [''5/10'', ''5/11'', ''5/11''] [''22'', ''23'', ''0'', ''1'', ''2'', ''3''] 0 = [''22'', ''23'']
   \<and> block_at [''5/10'', ''5/11'', ''5/11''] [''22'', ''23'', ''0'', ''1'', ''2'', ''3''] 1 = [''0'', ''1'', ''2'', ''3'']
   \<and> block_at [''5/10'', ''5/11'', ''5/11''] [''22'', ''23'', ''0'', ''1'', ''2'', ''3''] 2 = []"
proof -
  have k: "first_final [''5/10'', ''5/11'', ''5/11''] = 1"
    by code_simp
  have b0: "block_at [''5/10'', ''5/11'', ''5/11''] [''22'', ''23'', ''0'', ''1'', ''2'', ''3''] 0 = [''22'', ''23'']"
    by code_simp
  have b1: "block_at [''5/10'', ''5/11'', ''5/11''] [''22'', ''23'', ''0'', ''1'', ''2'', ''3''] 1 = [''0'', ''1'', ''2'', ''3'']"
    by code_simp
  from combine_emits_every_hour_once [of "[''5/10'', ''5/11'', ''5/11'']"
      "[''22'', ''23'', ''0'', ''1'', ''2'', ''3'']"] k b0 b1
  show ?thesis by simp
qed



end
